theory Spec2Isabelle
  imports Main "HOL-Library.Sublist"
begin

section \<open>Strings\<close>

text \<open>
  Paths, keywords and search terms are modelled as \<open>string\<close>, the list of the code units
  of the text. \<open>str_includes s k\<close> is \<open>s.includes(k)\<close>: \<open>k\<close> occurs in \<open>s\<close> as a contiguous
  block, at any position.

  \<open>String.prototype.toLowerCase\<close> belongs to the library of the language, not to the
  repository. \<open>toLowerCase\<close> below is its ASCII part: it maps the letters \<open>A\<close> to \<open>Z\<close> to
  \<open>a\<close> to \<open>z\<close> and leaves every other code unit as it is. \<open>determineFileType\<close> and
  \<open>filteredBlueprints\<close> compare a text of the user with ASCII text that the source writes
  out, the keywords and the fields of the catalog. Of the code units that a \<open>char\<close> holds,
  the library function maps none outside ASCII into ASCII, so that the ASCII part decides
  these comparisons as the library function does. \<open>filteredFiles\<close> compares two texts of
  the user with each other, and takes the library function as its parameter \<open>lc\<close>.
\<close>

definition toLowerCase_char :: "char \<Rightarrow> char" where
  "toLowerCase_char c =
     (let n = (of_char c :: nat) in if 65 \<le> n \<and> n \<le> 90 then char_of (n + 32) else c)"

definition toLowerCase :: "string \<Rightarrow> string" where
  "toLowerCase s = map toLowerCase_char s"

fun str_includes :: "string \<Rightarrow> string \<Rightarrow> bool" where
  "str_includes [] k = (k = [])"
| "str_includes (c # cs) k = (prefix k (c # cs) \<or> str_includes cs k)"

text \<open>
  What the theorems use of the library function \<open>lc\<close>. It works code point by code point,
  and an ASCII code unit is a code point of its own whose lowercase does not depend on its
  neighbours: ASCII text is lowercased as \<open>toLowerCase\<close> does it, and an ASCII block inside
  a longer text is lowercased in place, whatever becomes of the text around it.
\<close>

definition isASCII :: "string \<Rightarrow> bool" where
  "isASCII s = list_all (\<lambda>c. (of_char c :: nat) < 128) s"

definition lowercasing :: "(string \<Rightarrow> string) \<Rightarrow> bool" where
  "lowercasing lc \<longleftrightarrow>
     (\<forall>a. isASCII a \<longrightarrow> lc a = toLowerCase a)
     \<and> (\<forall>ps a ss. isASCII a \<longrightarrow> (\<exists>ps' ss'. lc (ps @ a @ ss) = ps' @ toLowerCase a @ ss'))"

text \<open>
  The library function on the code units below 256: besides \<open>A\<close> to \<open>Z\<close> it maps the
  capital letters from U+00C0 to U+00DE, the multiplication sign U+00D7 apart, to the small
  letters 32 places further on.
\<close>

definition toLowerCase_latin1_char :: "char \<Rightarrow> char" where
  "toLowerCase_latin1_char c =
     (let n = (of_char c :: nat)
      in if (65 \<le> n \<and> n \<le> 90) \<or> (192 \<le> n \<and> n \<le> 222 \<and> n \<noteq> 215)
         then char_of (n + 32) else c)"

definition toLowerCase_latin1 :: "string \<Rightarrow> string" where
  "toLowerCase_latin1 s = map toLowerCase_latin1_char s"

section \<open>Intake stage: the file list of \<open>TranslationPortal\<close>\<close>

datatype FileType = Work | Reference | Glossary | Instructions

text \<open>The browser's \<open>File\<close> object, with the fields the portal reads.\<close>

record FileWithPath =
  file_name :: string
  file_path :: "string option"
  file_webkitRelativePath :: string
  file_size :: nat

record FileData =
  fileHandle :: FileWithPath
  path :: string
  type :: FileType
  selected :: bool

text \<open>
  \<open>fileTypeMap\<close> is an object literal whose keys are no array indices, so
  \<open>Object.entries\<close> lists its pairs in the order in which the literal writes them.
\<close>

definition fileTypeMap :: "(string \<times> FileType) list" where
  "fileTypeMap =
     [(''reference'', Reference),
      (''references'', Reference),
      (''ref'', Reference),
      (''refs'', Reference),
      (''instruction'', Instructions),
      (''instructions'', Instructions),
      (''guide'', Instructions),
      (''tutorial'', Instructions),
      (''glossary'', Glossary),
      (''term'', Glossary),
      (''terms'', Glossary),
      (''definitions'', Glossary)]"

text \<open>The \<open>for\<close> loop of \<open>determineFileType\<close> over the entries, returning at the first hit.\<close>

fun scanEntries :: "(string \<times> FileType) list \<Rightarrow> string \<Rightarrow> FileType" where
  "scanEntries [] lowerFileName = Work"
| "scanEntries ((keyword, t) # rest) lowerFileName =
     (if str_includes lowerFileName keyword then t else scanEntries rest lowerFileName)"

definition determineFileType :: "string \<Rightarrow> FileType" where
  "determineFileType fileName =
     (let lowerFileName = toLowerCase fileName in scanEntries fileTypeMap lowerFileName)"

text \<open>\<open>a || b\<close> on strings: the empty string and \<open>undefined\<close> are falsy.\<close>

definition relativePath :: "FileWithPath \<Rightarrow> string" where
  "relativePath f =
     (case file_path f of
        Some p \<Rightarrow> if p \<noteq> [] then p
                  else if file_webkitRelativePath f \<noteq> [] then file_webkitRelativePath f
                  else file_name f
      | None \<Rightarrow> if file_webkitRelativePath f \<noteq> [] then file_webkitRelativePath f
                else file_name f)"

definition onDrop :: "FileWithPath list \<Rightarrow> FileData list \<Rightarrow> FileData list" where
  "onDrop acceptedFiles prev =
     prev @ map (\<lambda>f. \<lparr>fileHandle = f, path = relativePath f,
                      type = determineFileType (relativePath f), selected = False\<rparr>)
                acceptedFiles"

text \<open>A dropped file that carries a name only, as a plain file picked from a dialog does.\<close>

definition plainFile :: "string \<Rightarrow> FileWithPath" where
  "plainFile n =
     \<lparr>file_name = n, file_path = None, file_webkitRelativePath = [], file_size = 0\<rparr>"

text \<open>
  \<open>prev.map((file, i) => ...)\<close> visits every element with its position; the index argument
  of the two handlers is a JavaScript number, here an \<open>int\<close>.
\<close>

definition handleTypeChange :: "int \<Rightarrow> FileType \<Rightarrow> FileData list \<Rightarrow> FileData list" where
  "handleTypeChange index newType prev =
     map (\<lambda>(i, f). if int i = index then f\<lparr>type := newType\<rparr> else f) (enumerate 0 prev)"

definition handleCheckboxChange :: "int \<Rightarrow> FileData list \<Rightarrow> FileData list" where
  "handleCheckboxChange index prev =
     map (\<lambda>(i, f). if int i = index then f\<lparr>selected := \<not> selected f\<rparr> else f)
         (enumerate 0 prev)"

definition filteredFiles ::
  "(string \<Rightarrow> string) \<Rightarrow> FileData list \<Rightarrow> string \<Rightarrow> FileData list" where
  "filteredFiles lc fs searchTerm =
     filter (\<lambda>fileData. str_includes (lc (path fileData)) (lc searchTerm)) fs"

definition selectedFiles :: "FileData list \<Rightarrow> FileData list" where
  "selectedFiles fs = filter (\<lambda>f. selected f) fs"

definition handleBulkTypeChange :: "FileType \<Rightarrow> FileData list \<Rightarrow> FileData list" where
  "handleBulkTypeChange newType prev =
     map (\<lambda>f. if selected f then f\<lparr>type := newType\<rparr> else f) prev"

definition handleDone :: "FileData list \<Rightarrow> FileData list" where
  "handleDone prev = map (\<lambda>f. f\<lparr>selected := False\<rparr>) prev"

definition handleDeleteSelected :: "FileData list \<Rightarrow> FileData list" where
  "handleDeleteSelected prev = filter (\<lambda>f. \<not> selected f) prev"

text \<open>
  The vocabulary of the specification: \<open>containsCI s k\<close> says that \<open>s\<close> contains \<open>k\<close> when
  case is ignored, and \<open>classify_spec\<close> is the classification as the specification words
  it, the first pair of the ordered mapping whose keyword occurs in the lowercased path.
\<close>

definition containsCI :: "string \<Rightarrow> string \<Rightarrow> bool" where
  "containsCI s k = str_includes (toLowerCase s) (toLowerCase k)"

definition firstMatch ::
  "(string \<times> FileType) list \<Rightarrow> string \<Rightarrow> (string \<times> FileType) option" where
  "firstMatch pairs lowered = find (\<lambda>(keyword, t). str_includes lowered keyword) pairs"

definition classify_spec :: "string \<Rightarrow> FileType" where
  "classify_spec p =
     (case firstMatch fileTypeMap (toLowerCase p) of None \<Rightarrow> Work | Some (keyword, t) \<Rightarrow> t)"

section \<open>Blueprints and the catalog of \<open>AnalysisPopup\<close>\<close>

text \<open>
  The three components declare \<open>ProjectBlueprint\<close> separately; the portal hands the
  popup's value to the review form unchanged, so one record with the fields of all three
  declarations stands for them. An optional field is an \<open>option\<close>; the popup declares
  \<open>sourceLocale\<close> and \<open>targetLocales\<close> optional, the portal and the form declare them
  required, and every entry of the catalog sets them.
\<close>

record TranslationService =
  translation_enabled :: bool
  sourceLanguage :: string
  targetLanguages :: "string list"

record ReviewService =
  review_enabled :: bool
  reviewType :: "string option"
  reviewRounds :: "nat option"

record QAService =
  QA_enabled :: bool
  QAType :: string
  tools :: "string list"

record Services =
  translation :: TranslationService
  review :: ReviewService
  QA :: QAService

record ProjectBlueprint =
  name :: string
  creationDate :: string
  workgroup :: string
  division :: string
  product :: string
  program :: string
  requester :: string
  services :: Services
  sourceLocale :: string
  targetLocales :: "string list"
  referenceId :: "string option"

definition blueprints :: "ProjectBlueprint list" where
  "blueprints =
     [\<lparr>name = ''Sample Project'', creationDate = ''2024-12-20'',
       workgroup = ''Global Workgroup'', division = ''Life Sciences'',
       product = ''Opal Clinical'', program = ''Clinical Trials Localization'',
       requester = ''John Doe'',
       services = \<lparr>
         translation = \<lparr>translation_enabled = True, sourceLanguage = ''English'',
           targetLanguages = [''German'', ''French'', ''Spanish'']\<rparr>,
         review = \<lparr>review_enabled = True, reviewType = Some ''Linguistic Review'',
           reviewRounds = Some 2\<rparr>,
         QA = \<lparr>QA_enabled = True, QAType = ''Automated QA'',
           tools = [''Xbench'', ''Verifika'']\<rparr>\<rparr>,
       sourceLocale = ''en'', targetLocales = [''de'', ''fr'', ''es''],
       referenceId = None\<rparr>,
      \<lparr>name = ''Regulatory Compliance Update'', creationDate = ''2024-11-15'',
       workgroup = ''EMEA Operations'', division = ''Regulatory Affairs'',
       product = ''Opal Vigilance'', program = ''Pharmacovigilance Reporting'',
       requester = ''Jane Smith'',
       services = \<lparr>
         translation = \<lparr>translation_enabled = True, sourceLanguage = ''German'',
           targetLanguages = [''English'', ''Italian'', ''Dutch'']\<rparr>,
         review = \<lparr>review_enabled = False, reviewType = None, reviewRounds = None\<rparr>,
         QA = \<lparr>QA_enabled = True, QAType = ''Manual QA'',
           tools = [''Human Review Checklist'']\<rparr>\<rparr>,
       sourceLocale = ''de'', targetLocales = [''en'', ''it'', ''nl''],
       referenceId = None\<rparr>,
      \<lparr>name = ''Marketing Campaign Localization'', creationDate = ''2024-10-01'',
       workgroup = ''Global Marketing'', division = ''Consumer Products'',
       product = ''Opal Creative'', program = ''Q4 Product Launch'',
       requester = ''Alice Johnson'',
       services = \<lparr>
         translation = \<lparr>translation_enabled = True, sourceLanguage = ''English'',
           targetLanguages = [''French'', ''Spanish'', ''Japanese'', ''Korean'']\<rparr>,
         review = \<lparr>review_enabled = True, reviewType = Some ''Marketing Review'',
           reviewRounds = Some 1\<rparr>,
         QA = \<lparr>QA_enabled = True, QAType = ''Hybrid QA'',
           tools = [''Linguistic QA'', ''Visual QA'']\<rparr>\<rparr>,
       sourceLocale = ''en'', targetLocales = [''fr'', ''es'', ''ja'', ''ko''],
       referenceId = None\<rparr>]"

section \<open>The state of \<open>TranslationPortal\<close> and its handlers\<close>

datatype Step = Upload | Analyze | Finalize

record Portal =
  files :: "FileData list"
  searchTerm :: string
  isAnalysisPopupOpen :: bool
  selectedBlueprint :: "ProjectBlueprint option"
  currentStep :: Step

definition initialPortal :: Portal where
  "initialPortal =
     \<lparr>files = [], searchTerm = [], isAnalysisPopupOpen = False, selectedBlueprint = None,
      currentStep = Upload\<rparr>"

definition setSearchTerm :: "string \<Rightarrow> Portal \<Rightarrow> Portal" where
  "setSearchTerm v p = p\<lparr>searchTerm := v\<rparr>"

definition handleNext :: "Portal \<Rightarrow> Portal" where
  "handleNext p = p\<lparr>isAnalysisPopupOpen := True, currentStep := Analyze\<rparr>"

definition handleSelectBlueprint :: "ProjectBlueprint \<Rightarrow> Portal \<Rightarrow> Portal" where
  "handleSelectBlueprint blueprint p =
     p\<lparr>selectedBlueprint := Some blueprint, isAnalysisPopupOpen := False,
       currentStep := Finalize\<rparr>"

definition handleBack :: "Portal \<Rightarrow> Portal" where
  "handleBack p = p\<lparr>currentStep := Analyze, isAnalysisPopupOpen := True\<rparr>"

definition handleSubmitProject :: "Portal \<Rightarrow> Portal" where
  "handleSubmitProject p = p\<lparr>files := [], selectedBlueprint := None, currentStep := Upload\<rparr>"

definition onClose :: "Portal \<Rightarrow> Portal" where
  "onClose p = p\<lparr>isAnalysisPopupOpen := False\<rparr>"

text \<open>
  The portal returns the review form alone when \<open>currentStep === 'finalize' &&
  selectedBlueprint\<close>; otherwise it returns the intake page, whose last child is the
  \<open>AnalysisPopup\<close> element.
\<close>

definition finalizeRendered :: "Portal \<Rightarrow> bool" where
  "finalizeRendered p = (currentStep p = Finalize \<and> selectedBlueprint p \<noteq> None)"

section \<open>The \<open>AnalysisPopup\<close> component\<close>

text \<open>
  The state of a mounted \<open>AnalysisPopup\<close>. The initial values of \<open>useState\<close> apply when
  the component is mounted, and the state lives as long as the component stays mounted.
  The effect depends on \<open>isOpen\<close>: it runs after the mount and after every render in which
  \<open>isOpen\<close> differs from the render before, and its cleanup (\<open>clearTimeout\<close>) runs before
  each rerun and at unmount. \<open>timer\<close> says that the timeout is pending; the delay itself is
  abstracted to the event of the timeout firing.
\<close>

record AnalysisPopup =
  isAnalyzing :: bool
  popup_searchTerm :: string
  popup_selectedBlueprint :: "ProjectBlueprint option"
  timer :: bool

definition mountPopup :: "bool \<Rightarrow> AnalysisPopup" where
  "mountPopup isOpen =
     \<lparr>isAnalyzing = True, popup_searchTerm = [], popup_selectedBlueprint = None,
      timer = isOpen\<rparr>"

definition rerenderPopup :: "bool \<Rightarrow> bool \<Rightarrow> AnalysisPopup \<Rightarrow> AnalysisPopup" where
  "rerenderPopup wasOpen isOpen s = (if isOpen = wasOpen then s else s\<lparr>timer := isOpen\<rparr>)"

definition timeoutCallback :: "AnalysisPopup \<Rightarrow> AnalysisPopup" where
  "timeoutCallback s =
     s\<lparr>isAnalyzing := False, popup_selectedBlueprint := Some (blueprints ! 0),
       timer := False\<rparr>"

definition filteredBlueprints :: "string \<Rightarrow> ProjectBlueprint list" where
  "filteredBlueprints term =
     filter (\<lambda>blueprint.
        str_includes (toLowerCase (name blueprint)) (toLowerCase term) \<or>
        str_includes (toLowerCase (workgroup blueprint)) (toLowerCase term) \<or>
        str_includes (toLowerCase (division blueprint)) (toLowerCase term) \<or>
        str_includes (toLowerCase (product blueprint)) (toLowerCase term) \<or>
        str_includes (toLowerCase (program blueprint)) (toLowerCase term) \<or>
        str_includes (toLowerCase (requester blueprint)) (toLowerCase term))
      blueprints"

definition popup_setSearchTerm :: "string \<Rightarrow> AnalysisPopup \<Rightarrow> AnalysisPopup" where
  "popup_setSearchTerm v s = s\<lparr>popup_searchTerm := v\<rparr>"

definition popup_handleSelectBlueprint :: "ProjectBlueprint \<Rightarrow> AnalysisPopup \<Rightarrow> AnalysisPopup" where
  "popup_handleSelectBlueprint blueprint s = s\<lparr>popup_selectedBlueprint := Some blueprint\<rparr>"

text \<open>\<open>handleConfirmSelection\<close> gives the blueprint it passes to \<open>onSelectBlueprint\<close>, if any.\<close>

definition handleConfirmSelection :: "AnalysisPopup \<Rightarrow> ProjectBlueprint option" where
  "handleConfirmSelection s = popup_selectedBlueprint s"

section \<open>The portal with its popup: events and rendering\<close>

record App =
  portal :: Portal
  popup :: "AnalysisPopup option"

text \<open>
  \<open>render p' a\<close> commits the new portal state \<open>p'\<close>: the popup is unmounted with the intake
  page when the review form is returned, mounted afresh when the intake page comes back,
  and keeps its state otherwise.
\<close>

definition render :: "Portal \<Rightarrow> App \<Rightarrow> App" where
  "render p' a =
     \<lparr>portal = p',
      popup =
        (if finalizeRendered p' then None
         else case popup a of
                None \<Rightarrow> Some (mountPopup (isAnalysisPopupOpen p'))
              | Some s \<Rightarrow>
                  Some (rerenderPopup (isAnalysisPopupOpen (portal a))
                          (isAnalysisPopupOpen p') s))\<rparr>"

definition initialApp :: App where
  "initialApp = \<lparr>portal = initialPortal, popup = Some (mountPopup False)\<rparr>"

text \<open>What the popup shows: nothing when closed, the spinner, or the selection page.\<close>

datatype MatcherView =
  NotShown
  | AnalyzingView
  | PresentingView "ProjectBlueprint option" string

definition matcherView :: "App \<Rightarrow> MatcherView" where
  "matcherView a =
     (case popup a of
        None \<Rightarrow> NotShown
      | Some s \<Rightarrow>
          if \<not> isAnalysisPopupOpen (portal a) then NotShown
          else if isAnalyzing s then AnalyzingView
          else PresentingView (popup_selectedBlueprint s) (popup_searchTerm s))"

datatype Event =
  Drop "FileWithPath list"
  | TypeChange nat FileType
  | CheckboxChange nat
  | Search string
  | BulkTypeChange FileType
  | ClickDone
  | DeleteSelected
  | Next
  | TimerFires
  | PopupSearch string
  | SelectCard nat
  | Confirm
  | Cancel
  | Back
  | Submit

text \<open>
  \<open>step\<close> is \<open>None\<close> when the control of the event is not in the rendered tree, is
  disabled, or no timeout is pending. The rows of the table are those of \<open>filteredFiles\<close>,
  and the handlers receive the row number; \<open>lc\<close> is the library's lowercasing, which
  \<open>filteredFiles\<close> takes.
\<close>

definition intakeRendered :: "Portal \<Rightarrow> bool" where
  "intakeRendered p = (\<not> finalizeRendered p \<and> files p \<noteq> [])"

definition presenting :: "App \<Rightarrow> AnalysisPopup option" where
  "presenting a =
     (case popup a of
        None \<Rightarrow> None
      | Some s \<Rightarrow> if isAnalysisPopupOpen (portal a) \<and> \<not> isAnalyzing s then Some s else None)"

definition withFiles :: "(FileData list \<Rightarrow> FileData list) \<Rightarrow> Portal \<Rightarrow> Portal" where
  "withFiles f p = p\<lparr>files := f (files p)\<rparr>"

fun step :: "(string \<Rightarrow> string) \<Rightarrow> Event \<Rightarrow> App \<Rightarrow> App option" where
  "step lc (Drop acceptedFiles) a =
     (if finalizeRendered (portal a) then None
      else Some (render (withFiles (onDrop acceptedFiles) (portal a)) a))"
| "step lc (TypeChange i newType) a =
     (if intakeRendered (portal a)
         \<and> i < length (filteredFiles lc (files (portal a)) (searchTerm (portal a)))
      then Some (render (withFiles (handleTypeChange (int i) newType) (portal a)) a)
      else None)"
| "step lc (CheckboxChange i) a =
     (if intakeRendered (portal a)
         \<and> i < length (filteredFiles lc (files (portal a)) (searchTerm (portal a)))
      then Some (render (withFiles (handleCheckboxChange (int i)) (portal a)) a)
      else None)"
| "step lc (Search v) a =
     (if intakeRendered (portal a) then Some (render (setSearchTerm v (portal a)) a) else None)"
| "step lc (BulkTypeChange newType) a =
     (if intakeRendered (portal a) \<and> selectedFiles (files (portal a)) \<noteq> []
      then Some (render (withFiles (handleBulkTypeChange newType) (portal a)) a)
      else None)"
| "step lc ClickDone a =
     (if intakeRendered (portal a) \<and> selectedFiles (files (portal a)) \<noteq> []
      then Some (render (withFiles handleDone (portal a)) a)
      else None)"
| "step lc DeleteSelected a =
     (if intakeRendered (portal a) \<and> selectedFiles (files (portal a)) \<noteq> []
      then Some (render (withFiles handleDeleteSelected (portal a)) a)
      else None)"
| "step lc Next a =
     (if intakeRendered (portal a) then Some (render (handleNext (portal a)) a) else None)"
| "step lc TimerFires a =
     (case popup a of
        None \<Rightarrow> None
      | Some s \<Rightarrow> if timer s then Some (a\<lparr>popup := Some (timeoutCallback s)\<rparr>) else None)"
| "step lc (PopupSearch v) a =
     (case presenting a of
        None \<Rightarrow> None
      | Some s \<Rightarrow> Some (a\<lparr>popup := Some (popup_setSearchTerm v s)\<rparr>))"
| "step lc (SelectCard i) a =
     (case presenting a of
        None \<Rightarrow> None
      | Some s \<Rightarrow>
          if i < length (filteredBlueprints (popup_searchTerm s))
          then Some (a\<lparr>popup := Some (popup_handleSelectBlueprint
                                        (filteredBlueprints (popup_searchTerm s) ! i) s)\<rparr>)
          else None)"
| "step lc Confirm a =
     (case presenting a of
        None \<Rightarrow> None
      | Some s \<Rightarrow>
          (case handleConfirmSelection s of
             None \<Rightarrow> None
           | Some blueprint \<Rightarrow> Some (render (handleSelectBlueprint blueprint (portal a)) a)))"
| "step lc Cancel a =
     (case presenting a of
        None \<Rightarrow> None
      | Some s \<Rightarrow> Some (render (onClose (portal a)) a))"
| "step lc Back a =
     (if finalizeRendered (portal a) then Some (render (handleBack (portal a)) a) else None)"
| "step lc Submit a =
     (if finalizeRendered (portal a) then Some (render (handleSubmitProject (portal a)) a)
      else None)"

fun run :: "(string \<Rightarrow> string) \<Rightarrow> Event list \<Rightarrow> App \<Rightarrow> App option" where
  "run lc [] a = Some a"
| "run lc (e # es) a = (case step lc e a of None \<Rightarrow> None | Some a' \<Rightarrow> run lc es a')"

section \<open>The \<open>CheckAndFinalizeForm\<close> component\<close>

text \<open>
  The value the parent passes as \<open>onSaveChanges\<close>: \<open>Undefined\<close> when the property is
  omitted, a function, or another value that is no function. The default of the parameter,
  \<open>() => {}\<close>, replaces \<open>Undefined\<close> only. Calling a value that is no function throws a
  \<open>TypeError\<close>; calling a function is recorded as an effect, as is a console warning.
\<close>

datatype FunctionValue = DefaultNoOp | Collaborator

datatype JSValue = Undefined | Null | Function FunctionValue

datatype JSError = TypeError

datatype Effect = Called FunctionValue ProjectBlueprint | ConsoleWarn string

definition defaultParameter :: "JSValue \<Rightarrow> JSValue" where
  "defaultParameter v = (if v = Undefined then Function DefaultNoOp else v)"

definition typeof_function :: "JSValue \<Rightarrow> bool" where
  "typeof_function v = (case v of Function f \<Rightarrow> True | _ \<Rightarrow> False)"

definition js_call :: "JSValue \<Rightarrow> ProjectBlueprint \<Rightarrow> JSError + Effect list" where
  "js_call v arg = (case v of Function f \<Rightarrow> Inr [Called f arg] | _ \<Rightarrow> Inl TypeError)"

record CheckAndFinalizeForm =
  isEditing :: bool
  editableBlueprint :: ProjectBlueprint

definition mountForm :: "ProjectBlueprint \<Rightarrow> CheckAndFinalizeForm" where
  "mountForm blueprint = \<lparr>isEditing = False, editableBlueprint = blueprint\<rparr>"

definition toggleEdit ::
  "JSValue \<Rightarrow> CheckAndFinalizeForm \<Rightarrow> JSError + (CheckAndFinalizeForm \<times> Effect list)" where
  "toggleEdit prop s =
     (let onSaveChanges = defaultParameter prop in
      if isEditing s then
        (if typeof_function onSaveChanges then
           (case js_call onSaveChanges (editableBlueprint s) of
              Inl e \<Rightarrow> Inl e
            | Inr effects \<Rightarrow> Inr (s\<lparr>isEditing := \<not> isEditing s\<rparr>, effects))
         else Inr (s\<lparr>isEditing := \<not> isEditing s\<rparr>,
                   [ConsoleWarn ''onSaveChanges is not a function'']))
      else Inr (s\<lparr>isEditing := \<not> isEditing s\<rparr>, []))"

text \<open>The inputs of edit mode, each replacing one field of the working copy.\<close>

datatype FieldEdit =
  ReferenceIdInput string
  | WorkgroupSelect string
  | DivisionSelect string
  | ProductSelect string
  | ProgramSelect string
  | RequesterSelect string
  | SourceLocaleSelect string
  | TargetLocalesSelect "string list"

fun setEditableBlueprint :: "FieldEdit \<Rightarrow> CheckAndFinalizeForm \<Rightarrow> CheckAndFinalizeForm" where
  "setEditableBlueprint (ReferenceIdInput v) s =
     s\<lparr>editableBlueprint := (editableBlueprint s)\<lparr>referenceId := Some v\<rparr>\<rparr>"
| "setEditableBlueprint (WorkgroupSelect v) s =
     s\<lparr>editableBlueprint := (editableBlueprint s)\<lparr>workgroup := v\<rparr>\<rparr>"
| "setEditableBlueprint (DivisionSelect v) s =
     s\<lparr>editableBlueprint := (editableBlueprint s)\<lparr>division := v\<rparr>\<rparr>"
| "setEditableBlueprint (ProductSelect v) s =
     s\<lparr>editableBlueprint := (editableBlueprint s)\<lparr>product := v\<rparr>\<rparr>"
| "setEditableBlueprint (ProgramSelect v) s =
     s\<lparr>editableBlueprint := (editableBlueprint s)\<lparr>program := v\<rparr>\<rparr>"
| "setEditableBlueprint (RequesterSelect v) s =
     s\<lparr>editableBlueprint := (editableBlueprint s)\<lparr>requester := v\<rparr>\<rparr>"
| "setEditableBlueprint (SourceLocaleSelect v) s =
     s\<lparr>editableBlueprint := (editableBlueprint s)\<lparr>sourceLocale := v\<rparr>\<rparr>"
| "setEditableBlueprint (TargetLocalesSelect v) s =
     s\<lparr>editableBlueprint := (editableBlueprint s)\<lparr>targetLocales := v\<rparr>\<rparr>"

fun join :: "string \<Rightarrow> string list \<Rightarrow> string" where
  "join sep [] = []"
| "join sep [x] = x"
| "join sep (x # y # ys) = x @ sep @ join sep (y # ys)"

text \<open>
  The lines the form shows in place of the inputs when it is not in edit mode, each with
  its label; \<open>None\<close> in edit mode, where the inputs are shown.
\<close>

definition blueprintLines :: "ProjectBlueprint \<Rightarrow> (string \<times> string) list" where
  "blueprintLines b =
     [(''Reference ID:'',
         (case referenceId b of None \<Rightarrow> ''N/A'' | Some v \<Rightarrow> if v = [] then ''N/A'' else v)),
      (''Workgroup:'', workgroup b),
      (''Division:'', division b),
      (''Product:'', product b),
      (''Program:'', program b),
      (''Requester:'', requester b),
      (''Source Locale:'', sourceLocale b),
      (''Target Locales:'', join '', '' (targetLocales b))]"

definition readOnlyView :: "CheckAndFinalizeForm \<Rightarrow> (string \<times> string) list option" where
  "readOnlyView s = (if isEditing s then None else Some (blueprintLines (editableBlueprint s)))"

section \<open>Properties of the strings\<close>

lemma str_includes_sublist: "str_includes s k = sublist k s"
  by (induction s) (auto simp: sublist_Cons_right)

lemma str_includes_Nil: "str_includes s []"
  by (cases s) auto

lemma toLowerCase_idem: "toLowerCase (toLowerCase s) = toLowerCase s"
  by (induction s) (auto simp: toLowerCase_def toLowerCase_char_def Let_def)

section \<open>Classification by filename\<close>

lemma keywords_lower: "\<forall>(k, t) \<in> set fileTypeMap. toLowerCase k = k"
  by code_simp

lemma containsCI_keyword:
  "(k, t) \<in> set fileTypeMap \<Longrightarrow> containsCI s k = str_includes (toLowerCase s) k"
  using keywords_lower by (auto simp: containsCI_def)

lemma scanEntries_none:
  "(\<forall>(k, t) \<in> set m. \<not> str_includes s k) \<Longrightarrow> scanEntries m s = Work"
  by (induction m) auto

lemma scanEntries_split:
  assumes "m = before @ (k, t) # after"
    and "str_includes s k"
    and "\<forall>(k', t') \<in> set before. str_includes s k' \<longrightarrow> t' = t"
  shows "scanEntries m s = t"
  using assms by (induction before arbitrary: m) auto

lemma scanEntries_find:
  "scanEntries m s = (case firstMatch m s of None \<Rightarrow> Work | Some (k, t) \<Rightarrow> t)"
  by (induction m) (auto simp: firstMatch_def)

text \<open>
  Claim C1, as the specification states it: a filename that contains a keyword of the
  mapping is classified with the tag mapped to that keyword. The filename \<open>ref_guide\<close>
  contains the keyword \<open>guide\<close>, mapped to \<open>instructions\<close>, and is classified as
  \<open>reference\<close>, since the keyword \<open>ref\<close> comes earlier in the mapping.
\<close>

theorem determineFileType_keyword_counterexample:
  "(''guide'', Instructions) \<in> set fileTypeMap \<and> containsCI ''ref_guide'' ''guide''
     \<and> determineFileType ''ref_guide'' = Reference"
  by code_simp

text \<open>
  Claim C1, amended: a filename that contains, case ignored, a keyword of the mapping is
  classified with the tag mapped to that keyword, provided that every keyword earlier in
  the mapping that the filename also contains is mapped to the same tag; a filename that
  contains no keyword of the mapping is classified as \<open>work\<close>.
\<close>

theorem determineFileType_keyword_tag:
  "(\<forall>before k t after.
      fileTypeMap = before @ (k, t) # after \<and> containsCI fileName k \<and>
      (\<forall>(k', t') \<in> set before. containsCI fileName k' \<longrightarrow> t' = t)
      \<longrightarrow> determineFileType fileName = t)
   \<and> ((\<forall>(k, t) \<in> set fileTypeMap. \<not> containsCI fileName k)
        \<longrightarrow> determineFileType fileName = Work)"
proof (intro conjI allI impI)
  fix before k t after
  assume h: "fileTypeMap = before @ (k, t) # after \<and> containsCI fileName k \<and>
      (\<forall>(k', t') \<in> set before. containsCI fileName k' \<longrightarrow> t' = t)"
  then have split: "fileTypeMap = before @ (k, t) # after" by simp
  have mem: "(k, t) \<in> set fileTypeMap"
    by (subst split) simp
  have sub: "set before \<subseteq> set fileTypeMap"
    by (subst split) auto
  have hit: "str_includes (toLowerCase fileName) k"
    using h containsCI_keyword [OF mem] by simp
  have earlier: "\<forall>(k', t') \<in> set before. str_includes (toLowerCase fileName) k' \<longrightarrow> t' = t"
    using h sub containsCI_keyword by fastforce
  show "determineFileType fileName = t"
    using scanEntries_split [OF split hit earlier] by (simp add: determineFileType_def)
next
  assume "\<forall>(k, t) \<in> set fileTypeMap. \<not> containsCI fileName k"
  then have "\<forall>(k, t) \<in> set fileTypeMap. \<not> str_includes (toLowerCase fileName) k"
    using containsCI_keyword by fastforce
  then show "determineFileType fileName = Work"
    by (simp add: determineFileType_def scanEntries_none)
qed

text \<open>
  The two paths of the specification's example: \<open>Project_Glossary_v2.xlsx\<close> contains
  \<open>glossary\<close> and no earlier keyword, \<open>chapter1.docx\<close> contains no keyword.
\<close>

theorem determineFileType_keyword_tag_witness:
  "containsCI ''Project_Glossary_v2.xlsx'' ''glossary''
   \<and> determineFileType ''Project_Glossary_v2.xlsx'' = Glossary
   \<and> determineFileType ''chapter1.docx'' = Work"
proof -
  let ?before = "[(''reference'', Reference), (''references'', Reference), (''ref'', Reference),
      (''refs'', Reference), (''instruction'', Instructions), (''instructions'', Instructions),
      (''guide'', Instructions), (''tutorial'', Instructions)]"
  let ?after = "[(''term'', Glossary), (''terms'', Glossary), (''definitions'', Glossary)]"
  have split: "fileTypeMap = ?before @ (''glossary'', Glossary) # ?after"
    by (simp add: fileTypeMap_def)
  have hit: "containsCI ''Project_Glossary_v2.xlsx'' ''glossary''"
    by code_simp
  have earlier: "\<forall>(k', t') \<in> set ?before.
      containsCI ''Project_Glossary_v2.xlsx'' k' \<longrightarrow> t' = Glossary"
    by code_simp
  have none: "\<forall>(k, t) \<in> set fileTypeMap. \<not> containsCI ''chapter1.docx'' k"
    by code_simp
  have first: "determineFileType ''Project_Glossary_v2.xlsx'' = Glossary"
    using determineFileType_keyword_tag [of "''Project_Glossary_v2.xlsx''"] split hit earlier
    by blast
  have second: "determineFileType ''chapter1.docx'' = Work"
    using determineFileType_keyword_tag [of "''chapter1.docx''"] none by blast
  show ?thesis using hit first second by blast
qed

text \<open>
  Claim C5: the classification is the first-match-wins evaluation of the ordered list of
  (keyword, tag) pairs against the lowercased path, \<open>classify_spec\<close>; the result is the tag
  of the earliest pair of the mapping whose keyword occurs in the lowercased path, and
  \<open>work\<close> when no keyword occurs.
\<close>

theorem determineFileType_first_match_wins:
  "determineFileType p = classify_spec p
   \<and> (\<forall>before k t after.
        fileTypeMap = before @ (k, t) # after \<and> str_includes (toLowerCase p) k \<and>
        (\<forall>(k', t') \<in> set before. \<not> str_includes (toLowerCase p) k')
        \<longrightarrow> determineFileType p = t)
   \<and> ((\<forall>(k, t) \<in> set fileTypeMap. \<not> str_includes (toLowerCase p) k)
        \<longrightarrow> determineFileType p = Work)"
proof (intro conjI allI impI)
  show "determineFileType p = classify_spec p"
    by (simp add: determineFileType_def classify_spec_def scanEntries_find)
next
  fix before k t after
  assume h: "fileTypeMap = before @ (k, t) # after \<and> str_includes (toLowerCase p) k \<and>
        (\<forall>(k', t') \<in> set before. \<not> str_includes (toLowerCase p) k')"
  then have "\<forall>(k', t') \<in> set before. str_includes (toLowerCase p) k' \<longrightarrow> t' = t"
    by fastforce
  with h have "scanEntries fileTypeMap (toLowerCase p) = t"
    using scanEntries_split by blast
  then show "determineFileType p = t"
    by (simp add: determineFileType_def)
next
  assume "\<forall>(k, t) \<in> set fileTypeMap. \<not> str_includes (toLowerCase p) k"
  then show "determineFileType p = Work"
    by (simp add: determineFileType_def scanEntries_none)
qed

text \<open>
  \<open>Terms_and_Guide.txt\<close> contains \<open>guide\<close>, \<open>term\<close> and \<open>terms\<close>; \<open>guide\<close> is the earliest of
  them in the mapping.
\<close>

theorem determineFileType_first_match_wins_witness:
  "str_includes (toLowerCase ''Terms_and_Guide.txt'') ''guide''
   \<and> str_includes (toLowerCase ''Terms_and_Guide.txt'') ''term''
   \<and> determineFileType ''Terms_and_Guide.txt'' = Instructions
   \<and> determineFileType ''chapter1.docx'' = classify_spec ''chapter1.docx''
   \<and> determineFileType ''notes.txt'' = Work"
proof -
  let ?before = "[(''reference'', Reference), (''references'', Reference), (''ref'', Reference),
      (''refs'', Reference), (''instruction'', Instructions), (''instructions'', Instructions)]"
  let ?after = "[(''tutorial'', Instructions), (''glossary'', Glossary), (''term'', Glossary),
      (''terms'', Glossary), (''definitions'', Glossary)]"
  have split: "fileTypeMap = ?before @ (''guide'', Instructions) # ?after"
    by (simp add: fileTypeMap_def)
  have hit: "str_includes (toLowerCase ''Terms_and_Guide.txt'') ''guide''"
    by code_simp
  have later: "str_includes (toLowerCase ''Terms_and_Guide.txt'') ''term''"
    by code_simp
  have earlier: "\<forall>(k', t') \<in> set ?before.
      \<not> str_includes (toLowerCase ''Terms_and_Guide.txt'') k'"
    by code_simp
  have none: "\<forall>(k, t) \<in> set fileTypeMap. \<not> str_includes (toLowerCase ''notes.txt'') k"
    by code_simp
  have first: "determineFileType ''Terms_and_Guide.txt'' = Instructions"
    using determineFileType_first_match_wins [of "''Terms_and_Guide.txt''"] split hit earlier
    by blast
  have second: "determineFileType ''notes.txt'' = Work"
    using determineFileType_first_match_wins [of "''notes.txt''"] none by blast
  have third: "determineFileType ''chapter1.docx'' = classify_spec ''chapter1.docx''"
    using determineFileType_first_match_wins [of "''chapter1.docx''"] by blast
  show ?thesis using hit later first second third by blast
qed

section \<open>Editing the file list\<close>

lemma map_enumerate_skip:
  "(\<forall>i. n \<le> i \<and> i < n + length fs \<longrightarrow> \<not> P i) \<Longrightarrow>
     map (\<lambda>(i, f). if P i then g f else f) (enumerate n fs) = fs"
  by (induction fs arbitrary: n) auto

lemma count_list_filter:
  "count_list (filter P xs) x = (if P x then count_list xs x else 0)"
  by (induction xs) auto

lemma sublist_map: "sublist xs ys \<Longrightarrow> sublist (map f xs) (map f ys)"
  unfolding sublist_def by (metis map_append)

text \<open>
  Claim C6: bulk set classification gives the new tag to the files that are selected at the
  call, and to no other: the list keeps its length, a selected file changes in its tag only,
  and a file that is not selected stays as it is.
\<close>

theorem handleBulkTypeChange_exactly_selected:
  "length (handleBulkTypeChange newType fs) = length fs
   \<and> (\<forall>i < length fs.
         handleBulkTypeChange newType fs ! i
           = (if selected (fs ! i) then (fs ! i)\<lparr>type := newType\<rparr> else fs ! i))"
  by (simp add: handleBulkTypeChange_def)

theorem handleBulkTypeChange_exactly_selected_witness:
  "handleBulkTypeChange Reference
     [\<lparr>fileHandle = plainFile ''terms.csv'', path = ''terms.csv'', type = Glossary,
        selected = True\<rparr>,
      \<lparr>fileHandle = plainFile ''chapter1.docx'', path = ''chapter1.docx'', type = Work,
        selected = False\<rparr>] ! 0
     = \<lparr>fileHandle = plainFile ''terms.csv'', path = ''terms.csv'', type = Reference,
        selected = True\<rparr>
   \<and> handleBulkTypeChange Reference
     [\<lparr>fileHandle = plainFile ''terms.csv'', path = ''terms.csv'', type = Glossary,
        selected = True\<rparr>,
      \<lparr>fileHandle = plainFile ''chapter1.docx'', path = ''chapter1.docx'', type = Work,
        selected = False\<rparr>] ! 1
     = \<lparr>fileHandle = plainFile ''chapter1.docx'', path = ''chapter1.docx'', type = Work,
        selected = False\<rparr>"
proof -
  let ?fs = "[\<lparr>fileHandle = plainFile ''terms.csv'', path = ''terms.csv'', type = Glossary,
        selected = True\<rparr>,
      \<lparr>fileHandle = plainFile ''chapter1.docx'', path = ''chapter1.docx'', type = Work,
        selected = False\<rparr>]"
  have len: "(0::nat) < length ?fs" "(1::nat) < length ?fs" by simp_all
  from handleBulkTypeChange_exactly_selected [of Reference ?fs]
  have "\<forall>i < length ?fs.
         handleBulkTypeChange Reference ?fs ! i
           = (if selected (?fs ! i) then (?fs ! i)\<lparr>type := Reference\<rparr> else ?fs ! i)"
    by (rule conjunct2)
  then have "handleBulkTypeChange Reference ?fs ! 0
           = (if selected (?fs ! 0) then (?fs ! 0)\<lparr>type := Reference\<rparr> else ?fs ! 0)"
    and "handleBulkTypeChange Reference ?fs ! 1
           = (if selected (?fs ! 1) then (?fs ! 1)\<lparr>type := Reference\<rparr> else ?fs ! 1)"
    using len by blast+
  then show ?thesis by simp
qed

text \<open>
  Claim C7: delete-selected removes the selected files and no other: what is left is a
  subsequence of the list, so the order of the remaining files is kept, and every file
  occurs in it as often as before when it is not selected, and not at all when it is.
\<close>

theorem handleDeleteSelected_exactly_selected:
  "subseq (handleDeleteSelected fs) fs
   \<and> (\<forall>f. count_list (handleDeleteSelected fs) f
            = (if selected f then 0 else count_list fs f))"
  by (simp add: handleDeleteSelected_def count_list_filter)

theorem handleDeleteSelected_exactly_selected_witness:
  "handleDeleteSelected
     [\<lparr>fileHandle = plainFile ''a.txt'', path = ''a.txt'', type = Work, selected = False\<rparr>,
      \<lparr>fileHandle = plainFile ''terms.csv'', path = ''terms.csv'', type = Glossary,
        selected = True\<rparr>,
      \<lparr>fileHandle = plainFile ''b.txt'', path = ''b.txt'', type = Work, selected = False\<rparr>]
   = [\<lparr>fileHandle = plainFile ''a.txt'', path = ''a.txt'', type = Work, selected = False\<rparr>,
      \<lparr>fileHandle = plainFile ''b.txt'', path = ''b.txt'', type = Work, selected = False\<rparr>]
   \<and> count_list (handleDeleteSelected
     [\<lparr>fileHandle = plainFile ''a.txt'', path = ''a.txt'', type = Work, selected = False\<rparr>,
      \<lparr>fileHandle = plainFile ''terms.csv'', path = ''terms.csv'', type = Glossary,
        selected = True\<rparr>,
      \<lparr>fileHandle = plainFile ''b.txt'', path = ''b.txt'', type = Work, selected = False\<rparr>])
     \<lparr>fileHandle = plainFile ''terms.csv'', path = ''terms.csv'', type = Glossary,
        selected = True\<rparr> = 0"
proof -
  let ?fs = "[\<lparr>fileHandle = plainFile ''a.txt'', path = ''a.txt'', type = Work, selected = False\<rparr>,
      \<lparr>fileHandle = plainFile ''terms.csv'', path = ''terms.csv'', type = Glossary,
        selected = True\<rparr>,
      \<lparr>fileHandle = plainFile ''b.txt'', path = ''b.txt'', type = Work, selected = False\<rparr>]"
  let ?f = "\<lparr>fileHandle = plainFile ''terms.csv'', path = ''terms.csv'', type = Glossary,
        selected = True\<rparr>"
  have "count_list (handleDeleteSelected ?fs) ?f = (if selected ?f then 0 else count_list ?fs ?f)"
    using handleDeleteSelected_exactly_selected [of ?fs] by blast
  then have "count_list (handleDeleteSelected ?fs) ?f = 0" by simp
  moreover have "handleDeleteSelected ?fs = [?fs ! 0, ?fs ! 2]"
    by (simp add: handleDeleteSelected_def)
  ultimately show ?thesis by simp
qed

text \<open>
  Claim C8: Done clears the selection flag of every file and changes nothing else: the
  list keeps its length, and the file at each position keeps its handle, its path and its
  tag.
\<close>

theorem handleDone_clears_selection_only:
  "length (handleDone fs) = length fs
   \<and> (\<forall>i < length fs. handleDone fs ! i = (fs ! i)\<lparr>selected := False\<rparr>)
   \<and> map fileHandle (handleDone fs) = map fileHandle fs
   \<and> map path (handleDone fs) = map path fs
   \<and> map type (handleDone fs) = map type fs"
  by (simp add: handleDone_def)

theorem handleDone_clears_selection_only_witness:
  "handleDone
     [\<lparr>fileHandle = plainFile ''terms.csv'', path = ''terms.csv'', type = Glossary,
        selected = True\<rparr>] ! 0
   = \<lparr>fileHandle = plainFile ''terms.csv'', path = ''terms.csv'', type = Glossary,
        selected = False\<rparr>"
proof -
  let ?fs = "[\<lparr>fileHandle = plainFile ''terms.csv'', path = ''terms.csv'', type = Glossary,
        selected = True\<rparr>]"
  have "(0::nat) < length ?fs" by simp
  then have "handleDone ?fs ! 0 = (?fs ! 0)\<lparr>selected := False\<rparr>"
    using handleDone_clears_selection_only [of ?fs] by blast
  then show ?thesis by simp
qed

text \<open>
  Claim C10: with an index outside the list, negative or at least its length, set
  classification and toggle selection give the list back as it was. Both are total
  functions to a list: there is no error to raise.
\<close>

theorem index_out_of_range_unchanged:
  "index < 0 \<or> int (length fs) \<le> index \<Longrightarrow>
     handleTypeChange index newType fs = fs \<and> handleCheckboxChange index fs = fs"
  unfolding handleTypeChange_def handleCheckboxChange_def
  by (auto intro!: map_enumerate_skip)

theorem index_out_of_range_unchanged_witness:
  "handleTypeChange 1 Reference
     [\<lparr>fileHandle = plainFile ''terms.csv'', path = ''terms.csv'', type = Glossary,
        selected = True\<rparr>]
   = [\<lparr>fileHandle = plainFile ''terms.csv'', path = ''terms.csv'', type = Glossary,
        selected = True\<rparr>]
   \<and> handleCheckboxChange (- 1)
     [\<lparr>fileHandle = plainFile ''terms.csv'', path = ''terms.csv'', type = Glossary,
        selected = True\<rparr>]
   = [\<lparr>fileHandle = plainFile ''terms.csv'', path = ''terms.csv'', type = Glossary,
        selected = True\<rparr>]"
proof -
  let ?fs = "[\<lparr>fileHandle = plainFile ''terms.csv'', path = ''terms.csv'', type = Glossary,
        selected = True\<rparr>]"
  have above: "(1::int) < 0 \<or> int (length ?fs) \<le> 1" by simp
  have below: "(- 1::int) < 0 \<or> int (length ?fs) \<le> - 1" by simp
  show ?thesis
    using index_out_of_range_unchanged [OF above, of Reference]
      index_out_of_range_unchanged [OF below, of Reference]
    by simp
qed

section \<open>Searching the file list, and the selection flags\<close>

lemma toLowerCase_Nil: "toLowerCase [] = []"
  by (simp add: toLowerCase_def)

lemma containsCI_case:
  "toLowerCase s = toLowerCase s' \<Longrightarrow> toLowerCase k = toLowerCase k' \<Longrightarrow>
     containsCI s k = containsCI s' k'"
  by (simp add: containsCI_def)

lemma lowercasing_Nil:
  assumes "lowercasing lc"
  shows "lc [] = []"
proof -
  have "isASCII []" by (simp add: isASCII_def)
  then have "lc [] = toLowerCase []"
    using assms by (simp only: lowercasing_def)
  then show ?thesis by (simp add: toLowerCase_Nil)
qed

lemma lowercasing_block:
  assumes "lowercasing lc" and "isASCII a" and "sublist a p"
  shows "sublist (toLowerCase a) (lc p)"
proof -
  from assms(3) obtain ps ss where "p = ps @ a @ ss"
    by (auto simp: sublist_def)
  moreover from assms(1,2) obtain ps' ss' where "lc (ps @ a @ ss) = ps' @ toLowerCase a @ ss'"
    unfolding lowercasing_def by blast
  ultimately have "lc p = ps' @ toLowerCase a @ ss'" by simp
  then show ?thesis by (simp only: sublist_appendI)
qed

lemma toLowerCase_latin1_char_ascii:
  "(of_char c :: nat) < 128 \<Longrightarrow> toLowerCase_latin1_char c = toLowerCase_char c"
  by (simp add: toLowerCase_latin1_char_def toLowerCase_char_def Let_def)

lemma toLowerCase_latin1_ascii:
  "isASCII a \<Longrightarrow> toLowerCase_latin1 a = toLowerCase a"
  by (induction a)
    (simp_all add: isASCII_def toLowerCase_latin1_def toLowerCase_def
      toLowerCase_latin1_char_ascii)

lemma lowercasing_toLowerCase: "lowercasing toLowerCase"
  unfolding lowercasing_def
proof (intro conjI allI impI)
  fix ps a ss :: string
  have "toLowerCase (ps @ a @ ss) = toLowerCase ps @ toLowerCase a @ toLowerCase ss"
    by (simp add: toLowerCase_def)
  then show "\<exists>ps' ss'. toLowerCase (ps @ a @ ss) = ps' @ toLowerCase a @ ss'"
    by blast
qed simp

lemma lowercasing_latin1: "lowercasing toLowerCase_latin1"
  unfolding lowercasing_def
proof (intro conjI allI impI)
  fix a :: string
  assume "isASCII a"
  then show "toLowerCase_latin1 a = toLowerCase a"
    by (rule toLowerCase_latin1_ascii)
next
  fix ps a ss :: string
  assume "isASCII a"
  then have "toLowerCase_latin1 (ps @ a @ ss)
      = toLowerCase_latin1 ps @ toLowerCase a @ toLowerCase_latin1 ss"
    using toLowerCase_latin1_ascii [of a] by (simp add: toLowerCase_latin1_def)
  then show "\<exists>ps' ss'. toLowerCase_latin1 (ps @ a @ ss) = ps' @ toLowerCase a @ ss'"
    by blast
qed

lemma ref_in_reference: "sublist ''ref'' ''reference''"
proof -
  have "''reference'' = ''ref'' @ ''erence''" by simp
  then show ?thesis by (simp only: sublist_append_rightI)
qed

text \<open>
  Claim C9: filtering by the empty search term gives the whole list. Filtering ignores
  case: a file is kept exactly when the lowercased term occurs in its lowercased path, so
  that terms with one lowercase filter alike, and an ASCII term keeps every file whose
  path contains the term in any casing of its letters; the term \<open>REF\<close> keeps every file
  whose path contains \<open>reference\<close>. Filtering leaves the list of the portal as it is: the
  filtered rows are computed from the state, and typing a search term changes the term
  only. \<open>lc\<close> is the lowercasing of the library.
\<close>

theorem filteredFiles_empty_term_and_case:
  assumes "lowercasing lc"
  shows "filteredFiles lc fs [] = fs
   \<and> (\<forall>t t'. lc t = lc t' \<longrightarrow> filteredFiles lc fs t = filteredFiles lc fs t')
   \<and> (\<forall>f t. f \<in> set (filteredFiles lc fs t)
         \<longleftrightarrow> f \<in> set fs \<and> sublist (lc t) (lc (path f)))
   \<and> (\<forall>f a t. f \<in> set fs \<and> isASCII a \<and> isASCII t \<and> toLowerCase a = toLowerCase t
           \<and> sublist a (path f)
         \<longrightarrow> f \<in> set (filteredFiles lc fs t))
   \<and> (\<forall>f. f \<in> set fs \<and> sublist ''reference'' (path f)
         \<longrightarrow> f \<in> set (filteredFiles lc fs ''REF''))
   \<and> files (setSearchTerm v p) = files p"
proof -
  have mem: "f \<in> set (filteredFiles lc fs t)
         \<longleftrightarrow> f \<in> set fs \<and> sublist (lc t) (lc (path f))" for f t
    by (simp add: filteredFiles_def str_includes_sublist)
  have folded: "f \<in> set (filteredFiles lc fs t)"
    if "f \<in> set fs" "isASCII a" "isASCII t" "toLowerCase a = toLowerCase t"
      "sublist a (path f)" for f a t
  proof -
    have "sublist (toLowerCase a) (lc (path f))"
      using assms that(2,5) by (rule lowercasing_block)
    moreover have "lc t = toLowerCase t"
      using assms that(3) by (simp only: lowercasing_def)
    ultimately show ?thesis
      using that(1,4) by (simp add: mem)
  qed
  have empty: "filteredFiles lc fs [] = fs"
    by (simp add: filteredFiles_def lowercasing_Nil [OF assms] str_includes_Nil)
  have same: "filteredFiles lc fs t = filteredFiles lc fs t'" if "lc t = lc t'" for t t'
    using that by (simp add: filteredFiles_def)
  have example: "f \<in> set (filteredFiles lc fs ''REF'')"
    if "f \<in> set fs \<and> sublist ''reference'' (path f)" for f
  proof -
    have "sublist ''ref'' (path f)"
      using ref_in_reference that by (blast intro: sublist_order.order_trans)
    moreover have "isASCII ''ref''" "isASCII ''REF''" "toLowerCase ''ref'' = toLowerCase ''REF''"
      by code_simp+
    ultimately show ?thesis
      using that folded by blast
  qed
  have frame: "files (setSearchTerm v p) = files p"
    by (simp add: setSearchTerm_def)
  show ?thesis
    using empty same mem folded example frame by blast
qed

text \<open>
  A path with capital letters outside ASCII, \<open>R\<close>, U+00C9, \<open>SUM\<close>, U+00C9, \<open>.txt\<close>, is kept
  by the term in small letters;
  \<open>REF\<close> keeps \<open>reference.pdf\<close>, and the empty term keeps the whole list.
\<close>

theorem filteredFiles_empty_term_and_case_witness:
  "\<lparr>fileHandle = plainFile ''cv'', path = ''R'' @ [CHR 0xC9] @ ''SUM'' @ [CHR 0xC9] @ ''.txt'',
     type = Work, selected = False\<rparr>
     \<in> set (filteredFiles toLowerCase_latin1
         [\<lparr>fileHandle = plainFile ''cv'',
            path = ''R'' @ [CHR 0xC9] @ ''SUM'' @ [CHR 0xC9] @ ''.txt'',
            type = Work, selected = False\<rparr>]
         (''r'' @ [CHR 0xE9] @ ''sum'' @ [CHR 0xE9]))
   \<and> \<lparr>fileHandle = plainFile ''reference.pdf'', path = ''reference.pdf'',
        type = Reference, selected = False\<rparr>
     \<in> set (filteredFiles toLowerCase_latin1
       [\<lparr>fileHandle = plainFile ''reference.pdf'', path = ''reference.pdf'',
          type = Reference, selected = False\<rparr>] ''REF'')
   \<and> filteredFiles toLowerCase_latin1
       [\<lparr>fileHandle = plainFile ''reference.pdf'', path = ''reference.pdf'',
          type = Reference, selected = False\<rparr>] []
     = [\<lparr>fileHandle = plainFile ''reference.pdf'', path = ''reference.pdf'',
          type = Reference, selected = False\<rparr>]"
proof -
  let ?g = "\<lparr>fileHandle = plainFile ''cv'',
      path = ''R'' @ [CHR 0xC9] @ ''SUM'' @ [CHR 0xC9] @ ''.txt'',
      type = Work, selected = False\<rparr>"
  let ?t = "''r'' @ [CHR 0xE9] @ ''sum'' @ [CHR 0xE9]"
  let ?f = "\<lparr>fileHandle = plainFile ''reference.pdf'', path = ''reference.pdf'',
        type = Reference, selected = False\<rparr>"
  note inst = filteredFiles_empty_term_and_case [OF lowercasing_latin1]
  have "str_includes (toLowerCase_latin1 (path ?g)) (toLowerCase_latin1 ?t)"
    by code_simp
  then have "?g \<in> set [?g] \<and> sublist (toLowerCase_latin1 ?t) (toLowerCase_latin1 (path ?g))"
    by (simp only: str_includes_sublist) simp
  then have first: "?g \<in> set (filteredFiles toLowerCase_latin1 [?g] ?t)"
    using inst [of "[?g]"] by blast
  have "str_includes ''reference.pdf'' ''reference''" by code_simp
  then have "?f \<in> set [?f] \<and> sublist ''reference'' (path ?f)"
    by (simp only: str_includes_sublist) simp
  then have second: "?f \<in> set (filteredFiles toLowerCase_latin1 [?f] ''REF'')"
    using inst [of "[?f]"] by blast
  have third: "filteredFiles toLowerCase_latin1 [?f] [] = [?f]"
    using inst [of "[?f]"] by blast
  show ?thesis using first second third by blast
qed

text \<open>
  Claim C4, as the specification states it: after a bulk action the selection flag of
  every remaining file is false, and so it is on the hand-off to the next stage. Bulk set
  classification of one selected file leaves it selected, and so does \<open>handleNext\<close>.
\<close>

theorem bulk_keeps_selection_counterexample:
  "selected (handleBulkTypeChange Reference
     [\<lparr>fileHandle = plainFile ''terms.csv'', path = ''terms.csv'', type = Glossary,
        selected = True\<rparr>] ! 0)
   \<and> selected (files (handleNext
       \<lparr>files = [\<lparr>fileHandle = plainFile ''terms.csv'', path = ''terms.csv'',
                   type = Glossary, selected = True\<rparr>],
        searchTerm = [], isAnalysisPopupOpen = False, selectedBlueprint = None,
        currentStep = Upload\<rparr>) ! 0)"
  by (simp add: handleBulkTypeChange_def handleNext_def)

text \<open>
  Claim C4, amended: after delete selected, the selection flag of every remaining file is
  false; bulk set classification and the hand-off to the next stage leave every selection
  flag as it was, and Done is the operation that clears the flags.
\<close>

theorem selection_after_bulk_actions:
  "(\<forall>f \<in> set (handleDeleteSelected fs). \<not> selected f)
   \<and> map selected (handleBulkTypeChange newType fs) = map selected fs
   \<and> files (handleNext p) = files p
   \<and> (\<forall>f \<in> set (handleDone fs). \<not> selected f)"
  by (auto simp: handleDeleteSelected_def handleBulkTypeChange_def handleNext_def
      handleDone_def)

theorem selection_after_bulk_actions_witness:
  "\<not> selected (handleDeleteSelected
     [\<lparr>fileHandle = plainFile ''a.txt'', path = ''a.txt'', type = Work, selected = False\<rparr>,
      \<lparr>fileHandle = plainFile ''terms.csv'', path = ''terms.csv'', type = Glossary,
        selected = True\<rparr>] ! 0)
   \<and> \<not> selected (handleDone
     [\<lparr>fileHandle = plainFile ''terms.csv'', path = ''terms.csv'', type = Glossary,
        selected = True\<rparr>] ! 0)"
proof -
  let ?fs = "[\<lparr>fileHandle = plainFile ''a.txt'', path = ''a.txt'', type = Work, selected = False\<rparr>,
      \<lparr>fileHandle = plainFile ''terms.csv'', path = ''terms.csv'', type = Glossary,
        selected = True\<rparr>]"
  let ?gs = "[\<lparr>fileHandle = plainFile ''terms.csv'', path = ''terms.csv'', type = Glossary,
        selected = True\<rparr>]"
  have "handleDeleteSelected ?fs ! 0 \<in> set (handleDeleteSelected ?fs)"
    by (simp add: handleDeleteSelected_def)
  then have first: "\<not> selected (handleDeleteSelected ?fs ! 0)"
    using selection_after_bulk_actions [of ?fs] by blast
  have "handleDone ?gs ! 0 \<in> set (handleDone ?gs)"
    by (simp add: handleDone_def)
  then have second: "\<not> selected (handleDone ?gs ! 0)"
    using selection_after_bulk_actions [of ?gs] by blast
  show ?thesis using first second by blast
qed

section \<open>The Blueprint Matcher across openings\<close>

lemma render_popup: "popup (render p' a) = None \<longleftrightarrow> finalizeRendered p'"
  by (simp add: render_def split: option.split)

lemma step_popup_mounted:
  assumes "step lc e a = Some a'"
    and "popup a = None \<longleftrightarrow> finalizeRendered (portal a)"
  shows "popup a' = None \<longleftrightarrow> finalizeRendered (portal a')"
proof (cases e)
  case TimerFires
  then show ?thesis using assms by (auto split: option.splits if_splits)
next
  case (PopupSearch v)
  then show ?thesis using assms by (auto simp: presenting_def split: option.splits if_splits)
next
  case (SelectCard i)
  then show ?thesis using assms by (auto simp: presenting_def split: option.splits if_splits)
next
  case Confirm
  then show ?thesis using assms
    by (auto simp: render_def presenting_def split: option.splits if_splits)
next
  case Cancel
  then show ?thesis using assms
    by (auto simp: render_def presenting_def split: option.splits if_splits)
qed (use assms in \<open>auto simp: render_def split: option.splits if_splits\<close>)

lemma run_popup_mounted:
  "run lc es a = Some a' \<Longrightarrow> (popup a = None \<longleftrightarrow> finalizeRendered (portal a)) \<Longrightarrow>
     (popup a' = None \<longleftrightarrow> finalizeRendered (portal a'))"
proof (induction es arbitrary: a)
  case Nil
  then show ?case by simp
next
  case (Cons e es)
  then obtain b where b: "step lc e a = Some b" "run lc es b = Some a'"
    by (auto split: option.splits)
  have "popup b = None \<longleftrightarrow> finalizeRendered (portal b)"
    using b(1) Cons.prems(2) by (rule step_popup_mounted)
  with b(2) show ?case by (rule Cons.IH)
qed

text \<open>
  The first opening, and a reopening by Back from the review form: the popup is mounted
  or remounted, shows the spinner, and the timeout leads to the selection page with the
  first entry of the catalog as the candidate and an empty search term.
\<close>

lemma opening_after_Back:
  assumes "finalizeRendered (portal a)" and "popup a = None"
  shows "\<exists>a'. step lc Back a = Some a' \<and> popup a' = Some (mountPopup True)
           \<and> matcherView a' = AnalyzingView"
  using assms
  by (simp add: render_def handleBack_def finalizeRendered_def matcherView_def mountPopup_def)

lemma reachable_Back_reopens_fresh:
  assumes "run lc es initialApp = Some a" and "finalizeRendered (portal a)"
  shows "\<exists>a'. step lc Back a = Some a' \<and> popup a' = Some (mountPopup True)
           \<and> matcherView a' = AnalyzingView"
proof -
  have "popup initialApp = None \<longleftrightarrow> finalizeRendered (portal initialApp)"
    by (simp add: initialApp_def initialPortal_def finalizeRendered_def)
  with assms(1) have "popup a = None \<longleftrightarrow> finalizeRendered (portal a)"
    by (rule run_popup_mounted)
  with assms(2) have "popup a = None" by simp
  with assms(2) show ?thesis by (rule opening_after_Back)
qed

lemma fresh_popup_presents_first:
  assumes "popup a = Some (mountPopup True)" and "isAnalysisPopupOpen (portal a)"
  shows "\<exists>a'. step lc TimerFires a = Some a'
           \<and> matcherView a' = PresentingView (Some (blueprints ! 0)) []"
  using assms by (simp add: mountPopup_def timeoutCallback_def matcherView_def)

lemma first_opening:
  "map_option matcherView (run lc [Drop [plainFile ''terms.csv''], Next] initialApp)
     = Some AnalyzingView
   \<and> map_option matcherView (run lc [Drop [plainFile ''terms.csv''], Next, TimerFires] initialApp)
     = Some (PresentingView (Some (blueprints ! 0)) [])"
  by code_simp

text \<open>
  Claim C2 at a reopening after Cancel. One file is dropped, Next opens the matcher, the
  timeout fires, the user selects the second card and cancels, and Next opens the matcher
  again: the popup was never unmounted, so it shows the selection page at once, with the
  candidate of the opening before. The claim asks for the spinner and for no state carried
  over.
\<close>

theorem reopening_after_Cancel_keeps_state:
  "map_option matcherView
     (run lc [Drop [plainFile ''terms.csv''], Next, TimerFires, SelectCard 1, Cancel, Next]
        initialApp)
   = Some (PresentingView (Some (blueprints ! 1)) [])"
  by code_simp

text \<open>
  The end-to-end example of the specification: \<open>terms.csv\<close> is dropped and classified as
  glossary, selected, set to reference in bulk, and deleted.
\<close>

lemma end_to_end_example:
  "map_option (\<lambda>a. map type (files (portal a)))
     (run toLowerCase_latin1 [Drop [plainFile ''terms.csv'']] initialApp) = Some [Glossary]
   \<and> map_option (\<lambda>a. map type (files (portal a)))
     (run toLowerCase_latin1 [Drop [plainFile ''terms.csv''], CheckboxChange 0, BulkTypeChange Reference]
        initialApp) = Some [Reference]
   \<and> map_option (\<lambda>a. files (portal a))
     (run toLowerCase_latin1 [Drop [plainFile ''terms.csv''], CheckboxChange 0, BulkTypeChange Reference,
           DeleteSelected] initialApp) = Some []"
  by code_simp

lemma reopening_after_Cancel_timer_overrides:
  "map_option matcherView
     (run lc [Drop [plainFile ''terms.csv''], Next, TimerFires, SelectCard 1, Cancel, Next,
           TimerFires] initialApp)
   = Some (PresentingView (Some (blueprints ! 0)) [])"
  by code_simp

section \<open>Leaving edit mode in the review form\<close>

lemma setEditableBlueprint_isEditing:
  "isEditing (setEditableBlueprint e s) = isEditing s"
  by (cases e) simp_all

lemma fold_setEditableBlueprint_isEditing:
  "isEditing (fold setEditableBlueprint es s) = isEditing s"
  by (induction es arbitrary: s) (simp_all add: setEditableBlueprint_isEditing)

lemma toggleEdit_not_a_function:
  "isEditing s \<Longrightarrow>
     toggleEdit Null s
       = Inr (s\<lparr>isEditing := False\<rparr>, [ConsoleWarn ''onSaveChanges is not a function''])"
  by (simp add: toggleEdit_def defaultParameter_def typeof_function_def)

text \<open>
  Claim C3, as the specification states it: without a persistence collaborator, leaving
  edit mode skips the call and logs a warning. With the property omitted, the default
  parameter supplies the empty function, which passes the \<open>typeof\<close> test and is called;
  no warning is logged.
\<close>

theorem toggleEdit_no_warning_counterexample:
  "toggleEdit Undefined \<lparr>isEditing = True, editableBlueprint = blueprints ! 0\<rparr>
     = Inr (\<lparr>isEditing = False, editableBlueprint = blueprints ! 0\<rparr>,
            [Called DefaultNoOp (blueprints ! 0)])"
  by (simp add: toggleEdit_def defaultParameter_def typeof_function_def js_call_def)

text \<open>
  Claim C3, amended: in every state of the review form in which no persistence
  collaborator was supplied, leaving edit mode after any edits of the fields calls the
  default empty function with the edited blueprint and logs no warning, throws nothing,
  and the read-only view that follows shows the locally edited fields.
\<close>

theorem toggleEdit_without_collaborator:
  assumes "isEditing s"
  shows "toggleEdit Undefined (fold setEditableBlueprint es s)
           = Inr ((fold setEditableBlueprint es s)\<lparr>isEditing := False\<rparr>,
                  [Called DefaultNoOp (editableBlueprint (fold setEditableBlueprint es s))])
         \<and> readOnlyView ((fold setEditableBlueprint es s)\<lparr>isEditing := False\<rparr>)
           = Some (blueprintLines (editableBlueprint (fold setEditableBlueprint es s)))"
proof -
  have "isEditing (fold setEditableBlueprint es s)"
    using assms by (simp add: fold_setEditableBlueprint_isEditing)
  then show ?thesis
    by (simp add: toggleEdit_def defaultParameter_def typeof_function_def js_call_def
        readOnlyView_def)
qed

theorem toggleEdit_without_collaborator_witness:
  "toggleEdit Undefined
     \<lparr>isEditing = True, editableBlueprint = (blueprints ! 0)\<lparr>workgroup := ''workgroup2''\<rparr>\<rparr>
     = Inr (\<lparr>isEditing = False,
              editableBlueprint = (blueprints ! 0)\<lparr>workgroup := ''workgroup2''\<rparr>\<rparr>,
            [Called DefaultNoOp ((blueprints ! 0)\<lparr>workgroup := ''workgroup2''\<rparr>)])
   \<and> readOnlyView
       \<lparr>isEditing = False,
         editableBlueprint = (blueprints ! 0)\<lparr>workgroup := ''workgroup2''\<rparr>\<rparr>
     = Some [(''Reference ID:'', ''N/A''), (''Workgroup:'', ''workgroup2''),
             (''Division:'', ''Life Sciences''), (''Product:'', ''Opal Clinical''),
             (''Program:'', ''Clinical Trials Localization''), (''Requester:'', ''John Doe''),
             (''Source Locale:'', ''en''), (''Target Locales:'', ''de, fr, es'')]"
proof -
  let ?s = "\<lparr>isEditing = True, editableBlueprint = blueprints ! 0\<rparr>"
  have editing: "isEditing ?s" by simp
  have edited: "fold setEditableBlueprint [WorkgroupSelect ''workgroup2''] ?s
      = \<lparr>isEditing = True, editableBlueprint = (blueprints ! 0)\<lparr>workgroup := ''workgroup2''\<rparr>\<rparr>"
    by simp
  have lines: "blueprintLines ((blueprints ! 0)\<lparr>workgroup := ''workgroup2''\<rparr>)
      = [(''Reference ID:'', ''N/A''), (''Workgroup:'', ''workgroup2''),
         (''Division:'', ''Life Sciences''), (''Product:'', ''Opal Clinical''),
         (''Program:'', ''Clinical Trials Localization''), (''Requester:'', ''John Doe''),
         (''Source Locale:'', ''en''), (''Target Locales:'', ''de, fr, es'')]"
    by (simp add: blueprintLines_def blueprints_def)
  show ?thesis
    using toggleEdit_without_collaborator [OF editing, of "[WorkgroupSelect ''workgroup2'']"]
      lines
    by (simp only: edited) simp
qed

end
